theory Spec2Isabelle
  imports Complex_Main "HOL-Library.Multiset"
begin

section \<open>JavaScript values\<close>

text \<open>
  A JavaScript \<open>number\<close> is an IEEE double. A finite double is represented by the rational
  it denotes; \<open>NaN\<close> and the two infinities stand beside them: \<open>NaN\<close> is what \<open>parseFloat\<close>
  returns for text it cannot read, and the tests \<open>isNaN(..)\<close>, \<open>.. || 0\<close> and \<open>.. > 0\<close> of the
  source depend on it. The result of an addition, and of reading a decimal text, is
  rounded to the nearest double, ties to the even significand (\<open>roundDouble\<close>), and is an
  infinity when the rounded magnitude reaches \<open>2^1024\<close> (\<open>double\<close>). The sign of zero is not
  represented: no test of the source tells \<open>-0\<close> from \<open>0\<close>.
\<close>

datatype number = NaN | Num rat | PosInfinity | NegInfinity

text \<open>The number of binary digits of a natural number.\<close>

fun bitLength :: "nat \<Rightarrow> nat" where
  "bitLength n = (if n = 0 then 0 else Suc (bitLength (n div 2)))"

declare bitLength.simps [simp del]

definition pow2 :: "int \<Rightarrow> rat" where
  "pow2 e = (if 0 \<le> e then 2 ^ nat e else 1 / 2 ^ nat (- e))"

text \<open>For \<open>x > 0\<close>, the exponent \<open>e\<close> with \<open>2^e \<le> x < 2^(e+1)\<close>.\<close>

definition exponentOf :: "rat \<Rightarrow> int" where
  "exponentOf x =
     (if 1 \<le> x then int (bitLength (nat \<lfloor>x\<rfloor>)) - 1
      else
        let k = int (bitLength (nat \<lfloor>1 / x\<rfloor>))
        in if pow2 (1 - k) \<le> x then 1 - k else - k)"

definition roundHalfEven :: "rat \<Rightarrow> int" where
  "roundHalfEven q =
     (let f = \<lfloor>q\<rfloor>; d = q - of_int f
      in if d < 1 / 2 then f else if 1 / 2 < d then f + 1 else if even f then f else f + 1)"

text \<open>
  Rounding to a double: the significand has 53 binary digits, so the doubles around \<open>x\<close>
  are the multiples of \<open>2^(e - 52)\<close>, where \<open>e\<close> is the exponent of \<open>x\<close>; below \<open>2^(-1022)\<close>
  (the subnormal range) the spacing stays \<open>2^(-1074)\<close>.
\<close>

definition roundDouble :: "rat \<Rightarrow> rat" where
  "roundDouble x =
     (if x = 0 then 0
      else
        let ulp = pow2 (max (exponentOf \<bar>x\<bar>) (- 1022) - 52)
        in sgn x * of_int (roundHalfEven (\<bar>x\<bar> / ulp)) * ulp)"

definition double :: "rat \<Rightarrow> number" where
  "double x =
     (let r = roundDouble x
      in if 2 ^ 1024 \<le> r then PosInfinity
         else if r \<le> - (2 ^ 1024) then NegInfinity
         else Num r)"

instantiation number :: "{zero, plus}"
begin

definition zero_number :: number where
  "zero_number = Num 0"

fun plus_number :: "number \<Rightarrow> number \<Rightarrow> number" where
  "plus_number (Num a) (Num b) = double (a + b)"
| "plus_number NaN _ = NaN"
| "plus_number _ NaN = NaN"
| "plus_number PosInfinity NegInfinity = NaN"
| "plus_number NegInfinity PosInfinity = NaN"
| "plus_number PosInfinity _ = PosInfinity"
| "plus_number _ PosInfinity = PosInfinity"
| "plus_number NegInfinity _ = NegInfinity"
| "plus_number _ NegInfinity = NegInfinity"

instance ..

end

text \<open>The comparisons \<open>a > b\<close> and \<open>a >= b\<close>: false as soon as one side is \<open>NaN\<close>.\<close>

fun num_gt :: "number \<Rightarrow> number \<Rightarrow> bool" where
  "num_gt (Num a) (Num b) = (b < a)"
| "num_gt NaN _ = False"
| "num_gt _ NaN = False"
| "num_gt NegInfinity _ = False"
| "num_gt _ PosInfinity = False"
| "num_gt PosInfinity _ = True"
| "num_gt _ NegInfinity = True"

fun num_ge :: "number \<Rightarrow> number \<Rightarrow> bool" where
  "num_ge (Num a) (Num b) = (b \<le> a)"
| "num_ge NaN _ = False"
| "num_ge _ NaN = False"
| "num_ge PosInfinity _ = True"
| "num_ge _ NegInfinity = True"
| "num_ge NegInfinity _ = False"
| "num_ge _ PosInfinity = False"

fun isNaN :: "number \<Rightarrow> bool" where
  "isNaN NaN = True"
| "isNaN _ = False"

text \<open>
  The values \<open>JSON.parse\<close> can return, and \<open>undefined\<close>, which reading a missing
  property gives. An object is the list of its own properties.
\<close>

datatype jsval =
    JUndefined
  | JNull
  | JBool bool
  | JNum number
  | JStr string
  | JArr "jsval list"
  | JObj "(string \<times> jsval) list"

text \<open>Exceptions are values; the ones the storage code can meet.\<close>

datatype exn = SecurityError | QuotaExceededError | SyntaxError | TypeError

text \<open>
  \<open>data.key\<close>: reading a property of \<open>null\<close> or \<open>undefined\<close> throws a TypeError; an
  object gives its own property or \<open>undefined\<close>; the other values have no own property
  of the three names the source reads, so they give \<open>undefined\<close>.
\<close>

fun getProp :: "jsval \<Rightarrow> string \<Rightarrow> exn + jsval" where
  "getProp JUndefined k = Inl TypeError"
| "getProp JNull k = Inl TypeError"
| "getProp (JObj kvs) k = Inr (case map_of kvs k of None \<Rightarrow> JUndefined | Some v \<Rightarrow> v)"
| "getProp _ k = Inr JUndefined"

text \<open>Truthiness, as \<open>||\<close> and \<open>!\<close> test it.\<close>

fun truthy :: "jsval \<Rightarrow> bool" where
  "truthy JUndefined = False"
| "truthy JNull = False"
| "truthy (JBool b) = b"
| "truthy (JNum n) = (n \<noteq> NaN \<and> n \<noteq> Num 0)"
| "truthy (JStr s) = (s \<noteq> [])"
| "truthy (JArr _) = True"
| "truthy (JObj _) = True"

definition js_or :: "jsval \<Rightarrow> jsval \<Rightarrow> jsval" where
  "js_or a b = (if truthy a then a else b)"


section \<open>The local key-value store\<close>

text \<open>
  \<open>window.localStorage\<close>, as the adapter sees it. The store keeps serialised texts; since
  \<open>JSON.stringify\<close> and \<open>JSON.parse\<close> are parameters of the adapter below, the type \<open>'t\<close> of
  these texts is a parameter too. Reaching the store throws a SecurityError when the
  browser denies it (\<open>denied\<close>); \<open>setItem\<close> throws a QuotaExceededError when the store
  has no room for the entry (\<open>fits\<close> says which entries it has room for), and then
  leaves the items as they were. \<open>calls\<close> is the trace of the \<open>setItem\<close> calls the store
  received, accepted or not: it is what "a write was issued" means below.
\<close>

record 't Storage =
  denied :: bool
  fits :: "string \<Rightarrow> 't \<Rightarrow> bool"
  items :: "string \<rightharpoonup> 't"
  calls :: "(string \<times> 't) list"

definition getItem :: "string \<Rightarrow> 't Storage \<Rightarrow> exn + 't option" where
  "getItem k s = (if denied s then Inl SecurityError else Inr (items s k))"

definition setItem :: "string \<Rightarrow> 't \<Rightarrow> 't Storage \<Rightarrow> 't Storage \<times> exn option" where
  "setItem k v s =
     (if denied s then (s, Some SecurityError)
      else
        let s1 = s\<lparr>calls := calls s @ [(k, v)]\<rparr>
        in if \<not> fits s k v then (s1, Some QuotaExceededError)
           else (s1\<lparr>items := (items s)(k \<mapsto> v)\<rparr>, None))"

text \<open>The environment of the adapter: the store, and what \<open>console.error\<close> printed.\<close>

record 't Env =
  storage :: "'t Storage"
  console :: "(string \<times> exn) list"


section \<open>The persistence adapter (storage.ts)\<close>

text \<open>
  \<open>interface AppData { expenses: any[]; weeklyTarget: number; monthlyTarget: number }\<close>.
  Nothing checks the declared types at run time: what \<open>loadData\<close> returns holds whatever
  the stored text held, so the record is polymorphic in what its fields hold.
\<close>

record ('e, 'n) AppData =
  expenses :: 'e
  weeklyTarget :: 'n
  monthlyTarget :: 'n

definition STORAGE_KEY :: string where
  "STORAGE_KEY = ''expenseTrackerData''"

definition defaultData :: "(jsval, jsval) AppData" where
  "defaultData = \<lparr>expenses = JArr [], weeklyTarget = JNum (Num 500), monthlyTarget = JNum (Num 2000)\<rparr>"

text \<open>
  The body of the \<open>try\<close> block of \<open>loadData\<close>; \<open>Inl\<close> is a throw. \<open>JSON.parse\<close> is the
  parameter \<open>parse\<close>: it returns the parsed value or throws a SyntaxError.
\<close>

definition loadData_try :: "('t \<Rightarrow> exn + jsval) \<Rightarrow> 't Storage \<Rightarrow> exn + (jsval, jsval) AppData" where
  "loadData_try parse s =
     (case getItem STORAGE_KEY s of
        Inl e \<Rightarrow> Inl e
      | Inr None \<Rightarrow> Inr defaultData
      | Inr (Some serializedData) \<Rightarrow>
          (case parse serializedData of
             Inl e \<Rightarrow> Inl e
           | Inr data \<Rightarrow>
               (case getProp data ''expenses'' of
                  Inl e \<Rightarrow> Inl e
                | Inr ex \<Rightarrow>
                    (case getProp data ''weeklyTarget'' of
                       Inl e \<Rightarrow> Inl e
                     | Inr wt \<Rightarrow>
                         (case getProp data ''monthlyTarget'' of
                            Inl e \<Rightarrow> Inl e
                          | Inr mt \<Rightarrow>
                              Inr \<lparr>expenses = js_or ex (JArr []),
                                   weeklyTarget = js_or wt (JNum (Num 500)),
                                   monthlyTarget = js_or mt (JNum (Num 2000))\<rparr>)))))"

text \<open>\<open>loadData\<close>: the \<open>catch\<close> logs the error and returns the defaults.\<close>

definition loadData :: "('t \<Rightarrow> exn + jsval) \<Rightarrow> 't Env \<Rightarrow> (jsval, jsval) AppData \<times> 't Env" where
  "loadData parse env =
     (case loadData_try parse (storage env) of
        Inr d \<Rightarrow> (d, env)
      | Inl e \<Rightarrow>
          (defaultData, env\<lparr>console := console env @ [(''Could not load data from localStorage'', e)]\<rparr>))"

text \<open>
  \<open>saveData\<close>: \<open>JSON.stringify\<close> is the parameter \<open>stringify\<close> (on this data it does not
  throw); the \<open>catch\<close> logs what \<open>setItem\<close> threw.
\<close>

definition saveData :: "(('e, 'n) AppData \<Rightarrow> 't) \<Rightarrow> ('e, 'n) AppData \<Rightarrow> 't Env \<Rightarrow> 't Env" where
  "saveData stringify data env =
     (case setItem STORAGE_KEY (stringify data) (storage env) of
        (s', None) \<Rightarrow> env\<lparr>storage := s'\<rparr>
      | (s', Some e) \<Rightarrow>
          env\<lparr>storage := s', console := console env @ [(''Could not save data to localStorage'', e)]\<rparr>)"


section \<open>Reading numbers: \<open>parseFloat\<close>\<close>

text \<open>
  \<open>parseFloat\<close> skips leading white space and reads the longest prefix that is a decimal
  literal: an optional sign, and then either the word \<open>Infinity\<close> or digits with an
  optional fraction (or a fraction alone) and an exponent when it is complete. With
  nothing of this to read it returns \<open>NaN\<close>. What follows the literal is ignored, so
  \<open>12abc\<close> reads as \<open>12\<close>. The value read is rounded to a double, which makes it an
  infinity when it is too large and \<open>0\<close> when it is too small.

  The characters of a text are those of the type \<open>char\<close>, read as the code units U+0000 to
  U+00FF. Seven of them are white space of the language: the space, the characters U+0009
  to U+000D (tab, line feed, vertical tab, form feed, carriage return) and the no-break
  space U+00A0.
\<close>

definition isDigit :: "char \<Rightarrow> bool" where
  "isDigit c = (c \<in> set ''0123456789'')"

definition digitVal :: "char \<Rightarrow> nat" where
  "digitVal c = (of_char c :: nat) - 48"

definition digitsValue :: "string \<Rightarrow> nat" where
  "digitsValue ds = foldl (\<lambda>acc c. 10 * acc + digitVal c) 0 ds"

definition isWhiteSpace :: "char \<Rightarrow> bool" where
  "isWhiteSpace c =
     (c \<in> set [CHR '' '', CHR 0x09, CHR 0x0A, CHR 0x0B, CHR 0x0C, CHR 0x0D, CHR 0xA0])"

definition scale10 :: "rat \<Rightarrow> int \<Rightarrow> rat" where
  "scale10 x e = (if 0 \<le> e then x * 10 ^ nat e else x / 10 ^ nat (- e))"

definition exponentPart :: "string \<Rightarrow> int" where
  "exponentPart s =
     (case s of
        [] \<Rightarrow> 0
      | c # r \<Rightarrow>
          if c = CHR ''e'' \<or> c = CHR ''E'' then
            (let (sg, r') = (case r of
                               [] \<Rightarrow> (1, r)
                             | d # r2 \<Rightarrow> if d = CHR ''-'' then (- 1, r2)
                                         else if d = CHR ''+'' then (1, r2) else (1, r));
                 ds = takeWhile isDigit r'
             in if ds = [] then 0 else sg * int (digitsValue ds))
          else 0)"

definition isInfinityLiteral :: "string \<Rightarrow> bool" where
  "isInfinityLiteral s = (take 8 s = ''Infinity'')"

text \<open>The sign in front of the literal, and the rest of the text.\<close>

definition signPart :: "string \<Rightarrow> rat \<times> string" where
  "signPart s =
     (case s of
        [] \<Rightarrow> (1, s)
      | c # r \<Rightarrow> if c = CHR ''-'' then (- 1, r) else if c = CHR ''+'' then (1, r) else (1, s))"

text \<open>The digits after a dot (none without a dot), and the rest of the text.\<close>

definition fractionPart :: "string \<Rightarrow> string \<times> string" where
  "fractionPart s =
     (case s of
        [] \<Rightarrow> ([], s)
      | c # r \<Rightarrow> if c = CHR ''.'' then (takeWhile isDigit r, dropWhile isDigit r) else ([], s))"

definition parseFloat :: "string \<Rightarrow> number" where
  "parseFloat inputString =
     (let trimmed = dropWhile isWhiteSpace inputString;
          (sg, s1) = signPart trimmed;
          ip = takeWhile isDigit s1;
          (fp, s3) = fractionPart (dropWhile isDigit s1)
      in if isInfinityLiteral s1 then (if sg = 1 then PosInfinity else NegInfinity)
         else if ip = [] \<and> fp = [] then NaN
         else double (sg * scale10 (of_nat (digitsValue ip) + of_nat (digitsValue fp) / 10 ^ length fp)
                                   (exponentPart s3)))"

text \<open>\<open>a || b\<close> on numbers: \<open>NaN\<close> and \<open>0\<close> are the falsy ones.\<close>

definition number_or :: "number \<Rightarrow> number \<Rightarrow> number" where
  "number_or a b = (if a \<noteq> NaN \<and> a \<noteq> Num 0 then a else b)"


section \<open>Dates\<close>

text \<open>
  A \<open>Date\<close> holds a time value: a whole number of milliseconds, or \<open>NaN\<close> (here \<open>None\<close>)
  for an Invalid Date. The source reads and writes dates in local time only, so time
  values here are on the local time line (milliseconds since 1970-01-01T00:00:00 local);
  the zone offset and its daylight-saving changes are outside the embedding. The calendar
  follows the definitions of the language standard: \<open>Day\<close>, \<open>TimeWithinDay\<close>,
  \<open>DayFromYear\<close>, \<open>YearFromTime\<close>, \<open>MonthFromTime\<close>, \<open>DateFromTime\<close>, \<open>WeekDay\<close>,
  \<open>MakeDay\<close>, \<open>MakeDate\<close>.
\<close>

definition msPerDay :: int where
  "msPerDay = 86400000"

definition Day :: "int \<Rightarrow> int" where
  "Day t = t div msPerDay"

definition TimeWithinDay :: "int \<Rightarrow> int" where
  "TimeWithinDay t = t mod msPerDay"

definition DaysInYear :: "int \<Rightarrow> int" where
  "DaysInYear y =
     (if y mod 4 \<noteq> 0 then 365 else if y mod 100 \<noteq> 0 then 366
      else if y mod 400 \<noteq> 0 then 365 else 366)"

definition DayFromYear :: "int \<Rightarrow> int" where
  "DayFromYear y = 365 * (y - 1970) + (y - 1969) div 4 - (y - 1901) div 100 + (y - 1601) div 400"

lemma DayFromYear_step: "DayFromYear (y - 1) < DayFromYear y"
proof -
  have a: "(y - 1 - 1969) div 4 \<le> (y - 1969) div 4" by (rule zdiv_mono1) simp_all
  have b: "(y - 1901) div 100 \<le> (y - 1 - 1901) div 100 + 1" by linarith
  have c: "(y - 1 - 1601) div 400 \<le> (y - 1601) div 400" by (rule zdiv_mono1) simp_all
  have "\<And>a a' b b' c c' :: int. a \<le> a' \<Longrightarrow> b' \<le> b + 1 \<Longrightarrow> c \<le> c' \<Longrightarrow>
          365 * (y - 1 - 1970) + a - b + c < 365 * (y - 1970) + a' - b' + c'"
    by (simp add: algebra_simps)
  from this [OF a b c] show ?thesis
    unfolding DayFromYear_def .
qed

text \<open>
  \<open>YearFromTime t\<close> is the largest year \<open>y\<close> with \<open>DayFromYear y \<le> Day t\<close>: the search goes
  down from a year that starts after the day.
\<close>

function yearSearch :: "int \<Rightarrow> int \<Rightarrow> int" where
  "yearSearch d y = (if DayFromYear y \<le> d then y else yearSearch d (y - 1))"
  by pat_completeness auto
termination
proof (relation "measure (\<lambda>(d, y). nat (DayFromYear y - d))")
  show "wf (measure (\<lambda>(d, y). nat (DayFromYear y - d)))" by simp
next
  fix d y :: int
  assume "\<not> DayFromYear y \<le> d"
  then show "((d, y - 1), (d, y)) \<in> measure (\<lambda>(d, y). nat (DayFromYear y - d))"
    using DayFromYear_step [of y] by simp
qed

definition YearFromTime :: "int \<Rightarrow> int" where
  "YearFromTime t = yearSearch (Day t) (1971 + (if 0 \<le> Day t then Day t div 365 else 0))"

definition leapDay :: "int \<Rightarrow> int" where
  "leapDay y = (if DaysInYear y = 366 then 1 else 0)"

definition DayWithinYear :: "int \<Rightarrow> int" where
  "DayWithinYear t = Day t - DayFromYear (YearFromTime t)"

text \<open>The day of the year on which month \<open>m\<close> (0 = January) starts; \<open>l\<close> is 1 in a leap year.\<close>

definition monthStart :: "int \<Rightarrow> int \<Rightarrow> int" where
  "monthStart m l =
     (if m = 0 then 0 else if m = 1 then 31 else if m = 2 then 59 + l
      else if m = 3 then 90 + l else if m = 4 then 120 + l else if m = 5 then 151 + l
      else if m = 6 then 181 + l else if m = 7 then 212 + l else if m = 8 then 243 + l
      else if m = 9 then 273 + l else if m = 10 then 304 + l else 334 + l)"

definition MonthFromTime :: "int \<Rightarrow> int" where
  "MonthFromTime t =
     (let d = DayWithinYear t; l = leapDay (YearFromTime t)
      in if d < 31 then 0 else if d < 59 + l then 1 else if d < 90 + l then 2
         else if d < 120 + l then 3 else if d < 151 + l then 4 else if d < 181 + l then 5
         else if d < 212 + l then 6 else if d < 243 + l then 7 else if d < 273 + l then 8
         else if d < 304 + l then 9 else if d < 334 + l then 10 else 11)"

definition DateFromTime :: "int \<Rightarrow> int" where
  "DateFromTime t =
     DayWithinYear t - monthStart (MonthFromTime t) (leapDay (YearFromTime t)) + 1"

definition WeekDay :: "int \<Rightarrow> int" where
  "WeekDay t = (Day t + 4) mod 7"

definition MakeDay :: "int \<Rightarrow> int \<Rightarrow> int \<Rightarrow> int" where
  "MakeDay year month dt =
     (let ym = year + month div 12; mn = month mod 12
      in DayFromYear ym + monthStart mn (leapDay ym) + dt - 1)"

definition MakeTime :: "int \<Rightarrow> int \<Rightarrow> int \<Rightarrow> int \<Rightarrow> int" where
  "MakeTime h m s ms = h * 3600000 + m * 60000 + s * 1000 + ms"

definition MakeDate :: "int \<Rightarrow> int \<Rightarrow> int" where
  "MakeDate day time = day * msPerDay + time"

text \<open>The methods of \<open>Date\<close> the source calls, on a valid time value.\<close>

definition getDay :: "int \<Rightarrow> int" where
  "getDay t = WeekDay t"

definition getDate :: "int \<Rightarrow> int" where
  "getDate t = DateFromTime t"

definition getMonth :: "int \<Rightarrow> int" where
  "getMonth t = MonthFromTime t"

definition getFullYear :: "int \<Rightarrow> int" where
  "getFullYear t = YearFromTime t"

definition setDate :: "int \<Rightarrow> int \<Rightarrow> int" where
  "setDate t dt = MakeDate (MakeDay (YearFromTime t) (MonthFromTime t) dt) (TimeWithinDay t)"

definition setHours :: "int \<Rightarrow> int \<Rightarrow> int \<Rightarrow> int \<Rightarrow> int \<Rightarrow> int" where
  "setHours t h m s ms = MakeDate (Day t) (MakeTime h m s ms)"

text \<open>\<open>new Date(year, month, day)\<close>: local midnight of that day.\<close>

definition newDate :: "int \<Rightarrow> int \<Rightarrow> int \<Rightarrow> int" where
  "newDate year month dt =
     MakeDate (MakeDay (if 0 \<le> year \<and> year \<le> 99 then 1900 + year else year) month dt) 0"

text \<open>
  \<open>new Date(text)\<close> for the two shapes the application builds: \<open>YYYY-MM-DD\<close> and
  \<open>YYYY-MM-DDTHH:mm:ss\<close>. A text of another shape, or with a field out of range, gives
  an Invalid Date.
\<close>

definition digitsOf :: "string \<Rightarrow> int option" where
  "digitsOf s = (if s \<noteq> [] \<and> (\<forall>c \<in> set s. isDigit c) then Some (int (digitsValue s)) else None)"

definition daysInMonth :: "int \<Rightarrow> int \<Rightarrow> int" where
  "daysInMonth y m =
     (if m = 1 then 28 + leapDay y
      else if m = 3 \<or> m = 5 \<or> m = 8 \<or> m = 10 then 30 else 31)"

definition parseDatePart :: "string \<Rightarrow> int option" where
  "parseDatePart s =
     (if length s = 10 \<and> s ! 4 = CHR ''-'' \<and> s ! 7 = CHR ''-'' then
        (case (digitsOf (take 4 s), digitsOf (take 2 (drop 5 s)), digitsOf (drop 8 s)) of
           (Some y, Some m, Some d) \<Rightarrow>
             if 1 \<le> m \<and> m \<le> 12 \<and> 1 \<le> d \<and> d \<le> daysInMonth y (m - 1)
             then Some (MakeDay y (m - 1) d) else None
         | _ \<Rightarrow> None)
      else None)"

definition parseTimePart :: "string \<Rightarrow> int option" where
  "parseTimePart s =
     (if length s = 8 \<and> s ! 2 = CHR '':'' \<and> s ! 5 = CHR '':'' then
        (case (digitsOf (take 2 s), digitsOf (take 2 (drop 3 s)), digitsOf (drop 6 s)) of
           (Some h, Some m, Some sec) \<Rightarrow>
             if h < 24 \<and> m < 60 \<and> sec < 60 then Some (MakeTime h m sec 0) else None
         | _ \<Rightarrow> None)
      else None)"

definition Date_parse :: "string \<Rightarrow> int option" where
  "Date_parse s =
     (if length s = 10 then
        (case parseDatePart s of Some d \<Rightarrow> Some (MakeDate d 0) | None \<Rightarrow> None)
      else if length s = 19 \<and> s ! 10 = CHR ''T'' then
        (case (parseDatePart (take 10 s), parseTimePart (drop 11 s)) of
           (Some d, Some t) \<Rightarrow> Some (MakeDate d t)
         | _ \<Rightarrow> None)
      else None)"

text \<open>\<open>a >= b\<close> on two dates compares their time values; with an Invalid Date it is false.\<close>

fun date_ge :: "int option \<Rightarrow> int option \<Rightarrow> bool" where
  "date_ge (Some a) (Some b) = (b \<le> a)"
| "date_ge _ _ = False"

text \<open>\<open>getStartOfWeek\<close> of the source.\<close>

definition getStartOfWeek :: "int \<Rightarrow> int" where
  "getStartOfWeek date =
     (let d = date;
          day = getDay d;
          diff = getDate d - day + (if day = 0 then - 6 else 1)
      in setDate d diff)"


section \<open>The application state and its operations (the App component)\<close>

definition CATEGORIES :: "string list" where
  "CATEGORIES = [''Food'', ''Travel'', ''Dress'', ''Entertainment'', ''Other'']"

text \<open>An expense as \<open>handleAddExpense\<close> builds it; \<open>id'\<close> is the field \<open>id\<close>.\<close>

record Expense =
  id' :: int
  amount :: number
  category :: string
  date :: string

text \<open>
  The state of \<open>App\<close>: the three persisted fields and the page shown. The state of the
  form of the add page is \<open>NewExpense\<close> (its fields \<open>amount\<close>, \<open>category\<close>, \<open>date\<close> hold the
  texts of the inputs).
\<close>

record App = "(Expense list, number) AppData" +
  activePage :: string

record NewExpense =
  amountText :: string
  categoryText :: string
  dateText :: string

record 't World =
  app :: App
  env :: "'t Env"

definition initialApp :: App where
  "initialApp = \<lparr>expenses = [], weeklyTarget = 0, monthlyTarget = 0, activePage = ''summary''\<rparr>"

text \<open>
  \<open>Array.prototype.sort\<close> with a comparison function. The sort is stable, and a result
  of \<open>NaN\<close> from the comparison counts as \<open>0\<close>. It is modelled by insertion from the
  right, which gives the one order a stable sort can give when the comparison is
  consistent; with an inconsistent comparison (an Invalid Date among the dates) the
  order the language leaves open is the one of this insertion.
\<close>

definition sortCompare :: "('a \<Rightarrow> 'a \<Rightarrow> int option) \<Rightarrow> 'a \<Rightarrow> 'a \<Rightarrow> int" where
  "sortCompare comparefn x y = (case comparefn x y of None \<Rightarrow> 0 | Some v \<Rightarrow> v)"

fun insertSorted :: "('a \<Rightarrow> 'a \<Rightarrow> int option) \<Rightarrow> 'a \<Rightarrow> 'a list \<Rightarrow> 'a list" where
  "insertSorted comparefn x [] = [x]"
| "insertSorted comparefn x (y # ys) =
     (if sortCompare comparefn x y \<le> 0 then x # y # ys else y # insertSorted comparefn x ys)"

fun Array_sort :: "('a \<Rightarrow> 'a \<Rightarrow> int option) \<Rightarrow> 'a list \<Rightarrow> 'a list" where
  "Array_sort comparefn [] = []"
| "Array_sort comparefn (x # xs) = insertSorted comparefn x (Array_sort comparefn xs)"

text \<open>\<open>(a, b) => new Date(b.date).getTime() - new Date(a.date).getTime()\<close>\<close>

definition byDateDesc :: "Expense \<Rightarrow> Expense \<Rightarrow> int option" where
  "byDateDesc a b =
     (case (Date_parse (date b), Date_parse (date a)) of
        (Some tb, Some ta) \<Rightarrow> Some (tb - ta)
      | _ \<Rightarrow> None)"

text \<open>
  \<open>handleAddExpense\<close>: the argument \<open>now\<close> is what \<open>Date.now()\<close> returns. The new expense
  is appended and the whole list sorted; the page changes to the history.
\<close>

definition handleAddExpense :: "int \<Rightarrow> NewExpense \<Rightarrow> App \<Rightarrow> App" where
  "handleAddExpense now newExpense a =
     a\<lparr>expenses :=
          Array_sort byDateDesc
            (expenses a @
              [\<lparr>id' = now,
                amount = parseFloat (amountText newExpense),
                category = categoryText newExpense,
                date = dateText newExpense\<rparr>]),
        activePage := ''history''\<rparr>"

definition handleDeleteExpense :: "int \<Rightarrow> App \<Rightarrow> App" where
  "handleDeleteExpense i a = a\<lparr>expenses := filter (\<lambda>exp. id' exp \<noteq> i) (expenses a)\<rparr>"

text \<open>
  The effect that saves: \<open>if (expenses.length > 0 || weeklyTarget > 0 || monthlyTarget > 0)
  saveData({ expenses, weeklyTarget, monthlyTarget })\<close>.
\<close>

definition saveEffect ::
    "((Expense list, number) AppData \<Rightarrow> 't) \<Rightarrow> App \<Rightarrow> 't Env \<Rightarrow> 't Env" where
  "saveEffect stringify a e =
     (if 0 < length (expenses a) \<or> num_gt (weeklyTarget a) 0 \<or> num_gt (monthlyTarget a) 0
      then saveData stringify
             \<lparr>expenses = expenses a, weeklyTarget = weeklyTarget a, monthlyTarget = monthlyTarget a\<rparr> e
      else e)"

text \<open>
  After a state update the component renders again and the effect runs when one of its
  dependencies \<open>[expenses, weeklyTarget, monthlyTarget]\<close> changed. \<open>newArray\<close> says that
  the update put a new array into \<open>expenses\<close> (\<open>sort\<close> on a spread copy and \<open>filter\<close>
  always do); the targets are compared as numbers. \<open>prev\<close> is the state before the update.
\<close>

definition afterRender ::
    "((Expense list, number) AppData \<Rightarrow> 't) \<Rightarrow> bool \<Rightarrow> App \<Rightarrow> 't World \<Rightarrow> 't World" where
  "afterRender stringify newArray prev w =
     (if newArray \<or> weeklyTarget (app w) \<noteq> weeklyTarget prev
          \<or> monthlyTarget (app w) \<noteq> monthlyTarget prev
      then w\<lparr>env := saveEffect stringify (app w) (env w)\<rparr>
      else w)"

text \<open>
  \<open>addExpense\<close> is \<open>handleSubmit\<close> of the add page: it returns at once when the amount
  is empty or reads as \<open>NaN\<close>; otherwise it calls \<open>handleAddExpense\<close> and resets the form
  (\<open>today\<close> is the date the form returns to).
\<close>

definition handleSubmit ::
    "((Expense list, number) AppData \<Rightarrow> 't) \<Rightarrow> int \<Rightarrow> string \<Rightarrow> NewExpense \<Rightarrow> 't World
      \<Rightarrow> NewExpense \<times> 't World" where
  "handleSubmit stringify now today newExpense w =
     (if amountText newExpense = [] \<or> isNaN (parseFloat (amountText newExpense))
      then (newExpense, w)
      else
        (\<lparr>amountText = [], categoryText = hd CATEGORIES, dateText = today\<rparr>,
         afterRender stringify True (app w)
           (w\<lparr>app := handleAddExpense now newExpense (app w)\<rparr>)))"

text \<open>
  The operation on the application state alone: the form the submit leaves behind is
  dropped, so the date it returns to plays no part.
\<close>

definition addExpense ::
    "((Expense list, number) AppData \<Rightarrow> 't) \<Rightarrow> int \<Rightarrow> string \<Rightarrow> string \<Rightarrow> string
      \<Rightarrow> 't World \<Rightarrow> 't World" where
  "addExpense stringify now amountTxt cat dt w =
     snd (handleSubmit stringify now dt
            \<lparr>amountText = amountTxt, categoryText = cat, dateText = dt\<rparr> w)"

definition deleteExpense ::
    "((Expense list, number) AppData \<Rightarrow> 't) \<Rightarrow> int \<Rightarrow> 't World \<Rightarrow> 't World" where
  "deleteExpense stringify i w =
     afterRender stringify True (app w) (w\<lparr>app := handleDeleteExpense i (app w)\<rparr>)"

text \<open>
  \<open>setWeeklyTarget\<close> and \<open>setMonthlyTarget\<close> are \<open>handleWeeklyChange\<close> and
  \<open>handleMonthlyChange\<close> of the settings page, on the text of the input:
  \<open>onWeeklyTargetChange(parseFloat(value) || 0)\<close>.
\<close>

definition handleWeeklyChange ::
    "((Expense list, number) AppData \<Rightarrow> 't) \<Rightarrow> string \<Rightarrow> 't World \<Rightarrow> 't World" where
  "handleWeeklyChange stringify v w =
     afterRender stringify False (app w)
       (w\<lparr>app := (app w)\<lparr>weeklyTarget := number_or (parseFloat v) 0\<rparr>\<rparr>)"

definition handleMonthlyChange ::
    "((Expense list, number) AppData \<Rightarrow> 't) \<Rightarrow> string \<Rightarrow> 't World \<Rightarrow> 't World" where
  "handleMonthlyChange stringify v w =
     afterRender stringify False (app w)
       (w\<lparr>app := (app w)\<lparr>monthlyTarget := number_or (parseFloat v) 0\<rparr>\<rparr>)"

text \<open>The four mutations, and a run of them in order.\<close>

datatype Mutation =
    AddExpense int string string string
  | DeleteExpense int
  | SetWeeklyTarget string
  | SetMonthlyTarget string

fun mutate :: "((Expense list, number) AppData \<Rightarrow> 't) \<Rightarrow> 't World \<Rightarrow> Mutation \<Rightarrow> 't World" where
  "mutate stringify w (AddExpense now amountTxt cat dt) = addExpense stringify now amountTxt cat dt w"
| "mutate stringify w (DeleteExpense i) = deleteExpense stringify i w"
| "mutate stringify w (SetWeeklyTarget v) = handleWeeklyChange stringify v w"
| "mutate stringify w (SetMonthlyTarget v) = handleMonthlyChange stringify v w"

definition run :: "((Expense list, number) AppData \<Rightarrow> 't) \<Rightarrow> 't World \<Rightarrow> Mutation list \<Rightarrow> 't World" where
  "run stringify w ms = foldl (mutate stringify) w ms"


section \<open>The aggregates\<close>

text \<open>
  The \<open>useMemo\<close> block of \<open>App\<close>, with the clock as the argument \<open>now\<close>. \<open>catTotals\<close> is an
  object literal built by spreading: it has the five categories as its own keys, each
  with the number 0, and it inherits the properties of \<open>Object.prototype\<close>.

  \<open>catTotals[k]\<close> reads the own key \<open>k\<close> when there is one and the inherited property
  otherwise, so \<open>catTotals[k] !== undefined\<close> holds for the own keys and for the twelve
  inherited names too. On an own key that holds a number, \<open>+=\<close> adds. On an inherited
  name the value read is a function; \<open>+=\<close> turns it into text, appends the amount, and
  the assignment creates an own key \<open>k\<close> that holds this text; a later \<open>+=\<close> on it
  appends again. The characters of such a text depend on how the engine prints a native
  function and are not represented: \<open>Text\<close> stands for any of them. The one exception is
  \<open>__proto__\<close>: assigning a text to it is ignored and creates no key.
\<close>

datatype total = Total number | Text

definition Object_prototype :: "string list" where
  "Object_prototype =
     [''constructor'', ''__defineGetter__'', ''__defineSetter__'', ''hasOwnProperty'',
      ''__lookupGetter__'', ''__lookupSetter__'', ''isPrototypeOf'', ''propertyIsEnumerable'',
      ''toString'', ''valueOf'', ''__proto__'', ''toLocaleString'']"

record Aggregates =
  weeklySpent :: number
  monthlySpent :: number
  categoryTotals :: "string \<rightharpoonup> total"

definition initialTotals :: "string \<rightharpoonup> total" where
  "initialTotals = foldl (\<lambda>acc cat. acc(cat \<mapsto> Total 0)) Map.empty CATEGORIES"

text \<open>\<open>if (catTotals[k] !== undefined) { catTotals[k] += x; }\<close>\<close>

definition addToKey :: "(string \<rightharpoonup> total) \<Rightarrow> string \<Rightarrow> number \<Rightarrow> (string \<rightharpoonup> total)" where
  "addToKey catTotals k x =
     (case catTotals k of
        Some (Total v) \<Rightarrow> catTotals(k \<mapsto> Total (v + x))
      | Some Text \<Rightarrow> catTotals(k \<mapsto> Text)
      | None \<Rightarrow>
          if k \<in> set Object_prototype \<and> k \<noteq> ''__proto__'' then catTotals(k \<mapsto> Text)
          else catTotals)"

definition aggregateStep :: "int \<Rightarrow> int \<Rightarrow> Aggregates \<Rightarrow> Expense \<Rightarrow> Aggregates" where
  "aggregateStep startOfWeek startOfMonth acc expense =
     (let expenseDate = Date_parse (date expense @ ''T00:00:00'');
          acc1 =
            (if date_ge expenseDate (Some startOfMonth) then
               acc\<lparr>monthlySpent := monthlySpent acc + amount expense,
                   categoryTotals :=
                     addToKey (categoryTotals acc) (category expense) (amount expense)\<rparr>
             else acc)
      in if date_ge expenseDate (Some startOfWeek)
         then acc1\<lparr>weeklySpent := weeklySpent acc1 + amount expense\<rparr>
         else acc1)"

definition weekStart :: "int \<Rightarrow> int" where
  "weekStart now = setHours (getStartOfWeek now) 0 0 0 0"

definition monthStartTime :: "int \<Rightarrow> int" where
  "monthStartTime now = setHours (newDate (getFullYear now) (getMonth now) 1) 0 0 0 0"

definition aggregates :: "int \<Rightarrow> Expense list \<Rightarrow> Aggregates" where
  "aggregates now exps =
     foldl (aggregateStep (weekStart now) (monthStartTime now))
       \<lparr>weeklySpent = 0, monthlySpent = 0, categoryTotals = initialTotals\<rparr> exps"


section \<open>Notions used in the statements\<close>

text \<open>The record \<open>{ expenses, weeklyTarget, monthlyTarget }\<close> the save effect hands to \<open>saveData\<close>.\<close>

definition appData :: "App \<Rightarrow> (Expense list, number) AppData" where
  "appData a = \<lparr>expenses = expenses a, weeklyTarget = weeklyTarget a, monthlyTarget = monthlyTarget a\<rparr>"

text \<open>The condition under which the save effect calls \<open>saveData\<close>.\<close>

definition saveGuard :: "App \<Rightarrow> bool" where
  "saveGuard a = (expenses a \<noteq> [] \<or> num_gt (weeklyTarget a) 0 \<or> num_gt (monthlyTarget a) 0)"

text \<open>
  A mutation makes the save effect run when it changes one of the dependencies of the
  effect: an accepted add and a delete put a new array into \<open>expenses\<close>; setting a target
  does when the coerced value differs from the current one.
\<close>

fun effectRuns :: "'t World \<Rightarrow> Mutation \<Rightarrow> bool" where
  "effectRuns w (AddExpense now amountTxt cat dt) = (\<not> isNaN (parseFloat amountTxt))"
| "effectRuns w (DeleteExpense i) = True"
| "effectRuns w (SetWeeklyTarget v) = (number_or (parseFloat v) 0 \<noteq> weeklyTarget (app w))"
| "effectRuns w (SetMonthlyTarget v) = (number_or (parseFloat v) 0 \<noteq> monthlyTarget (app w))"

text \<open>
  A text that starts, after white space and an optional sign, with something
  \<open>parseFloat\<close> reads: the word \<open>Infinity\<close>, a digit, or a dot followed by a digit.
\<close>

definition unsigned :: "string \<Rightarrow> string" where
  "unsigned s =
     (case s of [] \<Rightarrow> [] | c # r \<Rightarrow> if c = CHR ''-'' \<or> c = CHR ''+'' then r else s)"

definition startsNumber :: "string \<Rightarrow> bool" where
  "startsNumber s =
     (isInfinityLiteral s
      \<or> (case s of
            [] \<Rightarrow> False
          | c # r \<Rightarrow>
              isDigit c
              \<or> (c = CHR ''.'' \<and> (case r of [] \<Rightarrow> False | d # r' \<Rightarrow> isDigit d))))"

definition readable :: "string \<Rightarrow> bool" where
  "readable t = startsNumber (unsigned (dropWhile isWhiteSpace t))"





text \<open>
  The date of the expense, read at local midnight as the aggregates read it, is on or
  after the time \<open>start\<close>.
\<close>

definition onOrAfter :: "int \<Rightarrow> Expense \<Rightarrow> bool" where
  "onOrAfter start e = date_ge (Date_parse (date e @ ''T00:00:00'')) (Some start)"

text \<open>
  The sum of a list of numbers taken in the order of the list, as a loop with
  \<open>total += x\<close> from \<open>0\<close> takes it.
\<close>

definition sumOf :: "number list \<Rightarrow> number" where
  "sumOf xs = foldl (+) 0 xs"

text \<open>
  The amounts of the list are non-negative whole numbers, and their total is at most
  \<open>2^53\<close>: then every sum of some of them is a double, and no addition rounds.
\<close>

definition units :: "number \<Rightarrow> nat" where
  "units n = (case n of Num x \<Rightarrow> nat \<lfloor>x\<rfloor> | _ \<Rightarrow> 0)"









section \<open>Example inputs\<close>

text \<open>
  In the examples the stored text is identified with the value it stands for: the parsed
  value on the reading side (\<open>JSON.parse\<close> is \<open>Inr\<close>), the saved record on the writing side
  (\<open>JSON.stringify\<close> is the identity).
\<close>

definition emptyEnv :: "'t Env" where
  "emptyEnv =
     \<lparr>storage = \<lparr>denied = False, fits = (\<lambda>k v. True), items = Map.empty, calls = []\<rparr>,
      console = []\<rparr>"

definition envHolding :: "'t \<Rightarrow> 't Env" where
  "envHolding v =
     \<lparr>storage = \<lparr>denied = False, fits = (\<lambda>k v. True), items = [STORAGE_KEY \<mapsto> v], calls = []\<rparr>,
      console = []\<rparr>"


definition storedExample :: jsval where
  "storedExample =
     JObj [(''expenses'',
            JArr [JObj [(''id'', JNum (Num 1)), (''amount'', JNum (Num 100)),
                        (''category'', JStr ''Food''), (''date'', JStr ''2024-07-01'')]]),
           (''weeklyTarget'', JNum (Num 500))]"

definition worldOf :: "App \<Rightarrow> 't World" where
  "worldOf a = \<lparr>app = a, env = emptyEnv\<rparr>"

text \<open>
  A world whose store received the writes \<open>writes\<close>, all accepted, and holds the last.
\<close>

definition savedWorld ::
    "App \<Rightarrow> (Expense list, number) AppData list \<Rightarrow> (Expense list, number) AppData World" where
  "savedWorld a writes =
     \<lparr>app = a,
      env = \<lparr>storage = \<lparr>denied = False, fits = (\<lambda>k v. True),
                         items = (if writes = [] then Map.empty else [STORAGE_KEY \<mapsto> last writes]),
                         calls = map (Pair STORAGE_KEY) writes\<rparr>,
             console = []\<rparr>\<rparr>"

definition e1 :: Expense where
  "e1 = \<lparr>id' = 1, amount = Num 100, category = ''Food'', date = ''2024-07-01''\<rparr>"

definition e2 :: Expense where
  "e2 = \<lparr>id' = 2, amount = Num (25 / 2), category = ''Travel'', date = ''2024-07-10''\<rparr>"

definition e3 :: Expense where
  "e3 = \<lparr>id' = 3, amount = Num 40, category = ''Food'', date = ''2024-07-07''\<rparr>"

definition e4 :: Expense where
  "e4 = \<lparr>id' = 4, amount = Num 7, category = ''Gift'', date = ''2024-07-09''\<rparr>"

text \<open>An expense whose category is a name every object inherits.\<close>

definition e5 :: Expense where
  "e5 = \<lparr>id' = 5, amount = Num 7, category = ''toString'', date = ''2024-07-09''\<rparr>"




text \<open>
  The states of the example run: the defaults, then one expense added, the weekly target
  set to 0, the monthly target set to 0, and the expense deleted.
\<close>

definition app0 :: App where
  "app0 = \<lparr>expenses = [], weeklyTarget = Num 500, monthlyTarget = Num 2000, activePage = ''summary''\<rparr>"

definition app1 :: App where
  "app1 = \<lparr>expenses = [e1], weeklyTarget = Num 500, monthlyTarget = Num 2000, activePage = ''history''\<rparr>"

definition app2 :: App where
  "app2 = \<lparr>expenses = [e1], weeklyTarget = Num 0, monthlyTarget = Num 2000, activePage = ''history''\<rparr>"

definition app3 :: App where
  "app3 = \<lparr>expenses = [e1], weeklyTarget = Num 0, monthlyTarget = Num 0, activePage = ''history''\<rparr>"

definition app4 :: App where
  "app4 = \<lparr>expenses = [], weeklyTarget = Num 0, monthlyTarget = Num 0, activePage = ''history''\<rparr>"


section \<open>Evaluation of the readers on the examples\<close>

lemma bitLength_0 [simp]: "bitLength 0 = 0"
  by (simp add: bitLength.simps)

lemma bitLength_1 [simp]: "bitLength (Suc 0) = Suc 0"
  by (simp add: bitLength.simps [of "Suc 0"])

lemma bitLength_numeral [simp]: "bitLength (numeral k) = Suc (bitLength (numeral k div 2))"
  by (subst bitLength.simps) simp

lemma floor_numeral_div [simp]: "\<lfloor>(numeral a :: rat) / numeral b\<rfloor> = numeral a div numeral b"
  using floor_divide_of_int_eq [of "numeral a" "numeral b", where ?'a = rat] by simp

lemma floor_one_div [simp]: "\<lfloor>(1 :: rat) / numeral b\<rfloor> = 1 div numeral b"
  using floor_divide_of_int_eq [of 1 "numeral b", where ?'a = rat] by simp

lemmas double_eval = double_def roundDouble_def exponentOf_def pow2_def roundHalfEven_def Let_def

lemmas digits_eval = isDigit_def digitVal_def digitsValue_def

lemmas parseFloat_eval =
  parseFloat_def signPart_def fractionPart_def isInfinityLiteral_def isWhiteSpace_def
  scale10_def exponentPart_def digits_eval double_eval

text \<open>Known doubles: 0.1, 0.2, 0.3, and the two sums of them that differ.\<close>

lemma double_tenth: "roundDouble (1 / 10) = 3602879701896397 / 2 ^ 55"
  by (simp add: double_eval)

lemma double_sums:
  "roundDouble (roundDouble (roundDouble (1 / 10) + roundDouble (2 / 10)) + roundDouble (3 / 10))
     = 5404319552844596 / 2 ^ 53"
  "roundDouble (roundDouble (1 / 10) + roundDouble (roundDouble (2 / 10) + roundDouble (3 / 10)))
     = 5404319552844595 / 2 ^ 53"
  by (simp_all add: double_eval)

lemmas date_eval =
  Date_parse_def parseDatePart_def parseTimePart_def digitsOf_def daysInMonth_def leapDay_def
  DaysInYear_def MakeDay_def MakeDate_def MakeTime_def DayFromYear_def monthStart_def
  msPerDay_def digits_eval




lemma parseFloat_empty: "parseFloat [] = NaN"
  by (simp add: parseFloat_def signPart_def fractionPart_def isInfinityLiteral_def)


section \<open>The persistence adapter: loading and saving\<close>

lemma js_or_prop:
  "js_or (case map_of kvs k of None \<Rightarrow> JUndefined | Some v \<Rightarrow> v) d =
     (case map_of kvs k of None \<Rightarrow> d | Some v \<Rightarrow> if truthy v then v else d)"
  by (simp add: js_or_def split: option.split)

text \<open>
  Claim C3. When the stored text parses to a record, \<open>loadData\<close> returns, for each of the
  three fields on its own, the stored value when the field is there and truthy, and the
  default (\<open>[]\<close>, \<open>500\<close>, \<open>2000\<close>) when the field is missing or falsy; nothing is logged and
  the store is left as it was.
\<close>

theorem loadData_fields:
  assumes "denied (storage ev) = False"
      and "items (storage ev) STORAGE_KEY = Some text"
      and "parse text = Inr (JObj kvs)"
  shows "loadData parse ev =
           (\<lparr>expenses =
               (case map_of kvs ''expenses'' of
                  None \<Rightarrow> JArr [] | Some v \<Rightarrow> if truthy v then v else JArr []),
             weeklyTarget =
               (case map_of kvs ''weeklyTarget'' of
                  None \<Rightarrow> JNum (Num 500) | Some v \<Rightarrow> if truthy v then v else JNum (Num 500)),
             monthlyTarget =
               (case map_of kvs ''monthlyTarget'' of
                  None \<Rightarrow> JNum (Num 2000) | Some v \<Rightarrow> if truthy v then v else JNum (Num 2000))\<rparr>,
            ev)"
  using assms by (simp add: loadData_def loadData_try_def getItem_def js_or_prop)

text \<open>
  The scenario of the specification: one expense and \<open>weeklyTarget = 500\<close> stored, no
  \<open>monthlyTarget\<close>. The expense and the weekly target come back, the monthly target is 2000.
\<close>

theorem loadData_fields_witness:
  "loadData Inr (envHolding storedExample) =
     (\<lparr>expenses =
         JArr [JObj [(''id'', JNum (Num 1)), (''amount'', JNum (Num 100)),
                     (''category'', JStr ''Food''), (''date'', JStr ''2024-07-01'')]],
       weeklyTarget = JNum (Num 500),
       monthlyTarget = JNum (Num 2000)\<rparr>,
      envHolding storedExample)"
  using loadData_fields [of "envHolding storedExample" storedExample Inr
      "[(''expenses'',
            JArr [JObj [(''id'', JNum (Num 1)), (''amount'', JNum (Num 100)),
                        (''category'', JStr ''Food''), (''date'', JStr ''2024-07-01'')]]),
           (''weeklyTarget'', JNum (Num 500))]"]
  by (simp add: envHolding_def storedExample_def)

text \<open>A field that is there but falsy is replaced too: a stored weekly target of 0 loads as 500.\<close>

lemma loadData_falsy_field:
  "loadData Inr (envHolding (JObj [(''weeklyTarget'', JNum (Num 0))])) =
     (defaultData, envHolding (JObj [(''weeklyTarget'', JNum (Num 0))]))"
  by (simp add: loadData_def loadData_try_def getItem_def js_or_def envHolding_def defaultData_def)




section \<open>Setting the targets\<close>

lemma app_afterRender [simp]: "app (afterRender stringify b p w) = app w"
  by (simp add: afterRender_def)

text \<open>
  Claim C2, as amended. Setting a target never rejects and never applies \<open>NaN\<close>: a text that
  does not read as a number, or that reads as zero, gives the target 0; any other text
  gives the number \<open>parseFloat\<close> reads, a negative one and an infinity included.
\<close>

theorem target_coercion:
  "weeklyTarget (app (handleWeeklyChange stringify v w)) =
     (if parseFloat v = NaN \<or> parseFloat v = Num 0 then Num 0 else parseFloat v)
   \<and> monthlyTarget (app (handleMonthlyChange stringify v w)) =
     (if parseFloat v = NaN \<or> parseFloat v = Num 0 then Num 0 else parseFloat v)
   \<and> weeklyTarget (app (handleWeeklyChange stringify v w)) \<noteq> NaN
   \<and> monthlyTarget (app (handleMonthlyChange stringify v w)) \<noteq> NaN"
  by (simp add: handleWeeklyChange_def handleMonthlyChange_def number_or_def zero_number_def)

theorem target_coercion_witness:
  "weeklyTarget (app (handleWeeklyChange (\<lambda>d. d) ''abc'' (worldOf initialApp))) = Num 0
   \<and> monthlyTarget (app (handleMonthlyChange (\<lambda>d. d) ''0.0'' (worldOf initialApp))) = Num 0
   \<and> weeklyTarget (app (handleWeeklyChange (\<lambda>d. d) ''750.5'' (worldOf initialApp))) = Num (1501 / 2)
   \<and> weeklyTarget (app (handleWeeklyChange (\<lambda>d. d) ''Infinity'' (worldOf initialApp))) = PosInfinity
   \<and> monthlyTarget (app (handleMonthlyChange (\<lambda>d. d) [CHR 0xA0, CHR ''1'', CHR ''2'']
        (worldOf initialApp))) = Num 12"
  using target_coercion [of "\<lambda>d. d" "''abc''" "worldOf initialApp"]
        target_coercion [of "\<lambda>d. d" "''0.0''" "worldOf initialApp"]
        target_coercion [of "\<lambda>d. d" "''750.5''" "worldOf initialApp"]
        target_coercion [of "\<lambda>d. d" "''Infinity''" "worldOf initialApp"]
        target_coercion [of "\<lambda>d. d" "[CHR 0xA0, CHR ''1'', CHR ''2'']" "worldOf initialApp"]
  by (simp add: parseFloat_eval)

text \<open>
  The claim as it stands fails: \<open>setWeeklyTarget(-5)\<close> applies \<open>-5\<close>, which is not 0 and is
  negative (\<open>0 > -5\<close>).
\<close>

theorem negative_target_counterexample:
  "weeklyTarget (app (handleWeeklyChange (\<lambda>d. d) ''-5'' (worldOf initialApp))) = Num (- 5)
   \<and> weeklyTarget (app (handleWeeklyChange (\<lambda>d. d) ''-5'' (worldOf initialApp))) \<noteq> Num 0
   \<and> num_gt 0 (weeklyTarget (app (handleWeeklyChange (\<lambda>d. d) ''-5'' (worldOf initialApp))))"
  by (simp add: handleWeeklyChange_def number_or_def zero_number_def parseFloat_eval)


section \<open>Adding and deleting expenses\<close>


lemma app_deleteExpense: "app (deleteExpense stringify i w) = handleDeleteExpense i (app w)"
  by (simp add: deleteExpense_def)

text \<open>
  \<open>parseFloat\<close> gives \<open>NaN\<close> exactly for the texts that are not \<open>readable\<close>; a text such as
  \<open>12abc\<close> or \<open>Infinity\<close> is readable, and the submit accepts it.
\<close>

lemma isNaN_double [simp]: "\<not> isNaN (double x)"
  by (simp add: double_def Let_def)

lemma parseFloat_NaN_iff: "isNaN (parseFloat t) = (\<not> readable t)"
proof -
  define s1 where "s1 = unsigned (dropWhile isWhiteSpace t)"
  have u: "snd (signPart s) = unsigned s" for s
    by (simp add: signPart_def unsigned_def split: list.split)
  have n: "isNaN (parseFloat t) =
      (\<not> isInfinityLiteral s1 \<and> takeWhile isDigit s1 = []
       \<and> fst (fractionPart (dropWhile isDigit s1)) = [])"
    by (simp add: parseFloat_def Let_def case_prod_beta u s1_def)
  have f: "(takeWhile isDigit s = [] \<and> fst (fractionPart (dropWhile isDigit s)) = []) =
      (case s of
         [] \<Rightarrow> True
       | c # r \<Rightarrow>
           \<not> isDigit c \<and> \<not> (c = CHR ''.'' \<and> (case r of [] \<Rightarrow> False | d # r' \<Rightarrow> isDigit d)))" for s
  proof (cases s)
    case Nil
    then show ?thesis by (simp add: fractionPart_def)
  next
    case (Cons c r)
    then show ?thesis
      by (cases r) (auto simp add: fractionPart_def)
  qed
  show ?thesis
    unfolding n readable_def s1_def [symmetric] startsNumber_def
    using f [of s1] by (auto split: list.splits)
qed

lemma readable_examples:
  "\<not> readable ''abc''" "\<not> readable []" "\<not> readable ''.''" "\<not> readable ''-''"
  "readable ''12abc''" "readable ''Infinity''" "readable '' -.5''"
  by (simp_all add: readable_def unsigned_def startsNumber_def isInfinityLiteral_def
      isWhiteSpace_def isDigit_def)



text \<open>
  Claim C8. Deleting by an id that no expense has leaves the list as it is. When the ids
  of the list are distinct and an expense has the id, exactly that expense is removed, at
  whatever position it stands, and the others stay in their order. In every case the
  expenses with another id are exactly the ones that remain, and the targets and the page
  are untouched. The operation has no error result.
\<close>

theorem deleteExpense_removes_matching:
  "(i \<notin> id' ` set (expenses (app w)) \<longrightarrow>
      expenses (app (deleteExpense stringify i w)) = expenses (app w))
   \<and> (expenses (app w) = xs @ e # ys \<and> id' e = i \<and> distinct (map id' (expenses (app w))) \<longrightarrow>
      expenses (app (deleteExpense stringify i w)) = xs @ ys)
   \<and> (\<forall>x. x \<in> set (expenses (app (deleteExpense stringify i w))) \<longleftrightarrow>
            x \<in> set (expenses (app w)) \<and> id' x \<noteq> i)
   \<and> weeklyTarget (app (deleteExpense stringify i w)) = weeklyTarget (app w)
   \<and> monthlyTarget (app (deleteExpense stringify i w)) = monthlyTarget (app w)
   \<and> activePage (app (deleteExpense stringify i w)) = activePage (app w)"
proof -
  have a: "i \<notin> id' ` set zs \<Longrightarrow> filter (\<lambda>exp. id' exp \<noteq> i) zs = zs" for zs :: "Expense list"
    by (induction zs) auto
  have "distinct (map id' (xs @ e # ys)) \<Longrightarrow> id' e = i \<Longrightarrow>
          filter (\<lambda>exp. id' exp \<noteq> i) (xs @ e # ys) = xs @ ys"
    using a [of xs] a [of ys] by auto
  with a [of "expenses (app w)"] show ?thesis
    by (auto simp add: app_deleteExpense handleDeleteExpense_def)
qed

theorem deleteExpense_removes_matching_witness:
  "expenses (app (deleteExpense (\<lambda>d. d) 99 (worldOf (initialApp\<lparr>expenses := [e2, e3]\<rparr>)))) = [e2, e3]
   \<and> expenses (app (deleteExpense (\<lambda>d. d) 3 (worldOf (initialApp\<lparr>expenses := [e2, e3]\<rparr>)))) = [e2]"
proof -
  have n: "99 \<notin> id' ` set (expenses (app (worldOf (initialApp\<lparr>expenses := [e2, e3]\<rparr>)
             :: (Expense list, number) AppData World)))"
    by (simp add: worldOf_def e2_def e3_def)
  have p: "expenses (app (worldOf (initialApp\<lparr>expenses := [e2, e3]\<rparr>)
             :: (Expense list, number) AppData World)) = [e2] @ e3 # []
           \<and> id' e3 = 3
           \<and> distinct (map id' (expenses (app (worldOf (initialApp\<lparr>expenses := [e2, e3]\<rparr>)
             :: (Expense list, number) AppData World))))"
    by (simp add: worldOf_def e2_def e3_def)
  from deleteExpense_removes_matching
         [of 99 "worldOf (initialApp\<lparr>expenses := [e2, e3]\<rparr>)" "\<lambda>d. d"] n
  have "expenses (app (deleteExpense (\<lambda>d. d) 99 (worldOf (initialApp\<lparr>expenses := [e2, e3]\<rparr>))))
          = [e2, e3]"
    by (simp add: worldOf_def)
  moreover from deleteExpense_removes_matching
         [of 3 "worldOf (initialApp\<lparr>expenses := [e2, e3]\<rparr>)" "\<lambda>d. d" "[e2]" e3 "[]",
          THEN conjunct2, THEN conjunct1] p
  have "expenses (app (deleteExpense (\<lambda>d. d) 3 (worldOf (initialApp\<lparr>expenses := [e2, e3]\<rparr>))))
          = [e2]"
    by (simp add: e2_def e3_def)
  ultimately show ?thesis by simp
qed


section \<open>The order of the expense list\<close>

lemma set_insertSorted [simp]: "set (insertSorted c x ys) = insert x (set ys)"
  by (induction ys) auto

lemma set_Array_sort [simp]: "set (Array_sort c xs) = set xs"
  by (induction xs) auto

lemma length_Array_sort [simp]: "length (Array_sort c xs) = length xs"
proof -
  have "length (insertSorted c x ys) = Suc (length ys)" for x ys
    by (induction ys) auto
  then show ?thesis by (induction xs) auto
qed












section \<open>Writing through to the store\<close>

lemma env_mutate:
  "effectRuns w m \<Longrightarrow>
     env (mutate stringify w m) = saveEffect stringify (app (mutate stringify w m)) (env w)"
proof (cases m)
  case (AddExpense now amountTxt cat dt)
  assume "effectRuns w m"
  with AddExpense have "\<not> isNaN (parseFloat amountTxt)" by simp
  moreover from this have "amountTxt \<noteq> []" using parseFloat_empty by auto
  ultimately show ?thesis using AddExpense
    by (simp add: addExpense_def handleSubmit_def afterRender_def)
next
  case (DeleteExpense i)
  then show ?thesis by (simp add: deleteExpense_def afterRender_def)
next
  case (SetWeeklyTarget v)
  assume "effectRuns w m"
  with SetWeeklyTarget show ?thesis by (simp add: handleWeeklyChange_def afterRender_def)
next
  case (SetMonthlyTarget v)
  assume "effectRuns w m"
  with SetMonthlyTarget show ?thesis by (simp add: handleMonthlyChange_def afterRender_def)
qed

lemma saveEffect_guard:
  "saveGuard a \<Longrightarrow> saveEffect stringify a e = saveData stringify (appData a) e"
  by (auto simp add: saveEffect_def saveGuard_def appData_def)

text \<open>
  What the save effect does when its guard holds for the new state: the environment is
  the one \<open>saveData\<close> leaves when called with the full updated state. Unless the store is
  denied, one \<open>setItem\<close> call with the serialised updated state is appended to the trace
  of the calls, so the writes stand in the order of the mutations; and when the store has
  room for it, the stored record is the serialised updated state.
\<close>

lemma write_when_guard_holds:
  assumes "effectRuns w m" and "saveGuard (app (mutate stringify w m))"
  shows "env (mutate stringify w m) = saveData stringify (appData (app (mutate stringify w m))) (env w)
       \<and> (denied (storage (env w)) = False \<longrightarrow>
            calls (storage (env (mutate stringify w m))) =
              calls (storage (env w)) @ [(STORAGE_KEY, stringify (appData (app (mutate stringify w m))))])
       \<and> (denied (storage (env w)) = False
            \<and> fits (storage (env w)) STORAGE_KEY (stringify (appData (app (mutate stringify w m))))
          \<longrightarrow> items (storage (env (mutate stringify w m))) STORAGE_KEY =
                Some (stringify (appData (app (mutate stringify w m)))))"
proof -
  have e: "env (mutate stringify w m) =
      saveData stringify (appData (app (mutate stringify w m))) (env w)"
    using env_mutate [OF assms(1)] saveEffect_guard [OF assms(2)] by simp
  show ?thesis
    unfolding e by (simp add: saveData_def setItem_def Let_def)
qed

text \<open>The example run, step by step: three writes, then none.\<close>

lemma step1:
  "addExpense (\<lambda>d. d) 1 ''100'' ''Food'' ''2024-07-01'' (savedWorld app0 []) =
     savedWorld app1 [appData app1]"
  by (simp add: savedWorld_def app0_def app1_def appData_def addExpense_def handleSubmit_def
      handleAddExpense_def afterRender_def saveEffect_def saveData_def setItem_def e1_def
      parseFloat_eval)

lemma step2:
  "handleWeeklyChange (\<lambda>d. d) ''0'' (savedWorld app1 [appData app1]) =
     savedWorld app2 [appData app1, appData app2]"
  by (simp add: savedWorld_def app1_def app2_def appData_def handleWeeklyChange_def
      afterRender_def saveEffect_def saveData_def setItem_def e1_def number_or_def
      zero_number_def parseFloat_eval)

lemma step3:
  "handleMonthlyChange (\<lambda>d. d) ''0'' (savedWorld app2 [appData app1, appData app2]) =
     savedWorld app3 [appData app1, appData app2, appData app3]"
  by (simp add: savedWorld_def app2_def app3_def appData_def handleMonthlyChange_def
      afterRender_def saveEffect_def saveData_def setItem_def e1_def number_or_def
      zero_number_def parseFloat_eval)

lemma step4:
  "deleteExpense (\<lambda>d. d) 1 (savedWorld app3 [appData app1, appData app2, appData app3]) =
     savedWorld app4 [appData app1, appData app2, appData app3]"
  by (simp add: savedWorld_def app3_def app4_def appData_def deleteExpense_def
      handleDeleteExpense_def afterRender_def saveEffect_def zero_number_def e1_def)

text \<open>
  Claim C1. The claim is that every mutation is followed by a write of the full updated
  state, so that the stored record agrees with the state in memory. The source announces
  the same (``Save data to localStorage whenever it changes''), and says of the guard of
  the effect that it is there for the first render only. But the guard tests the state,
  not the render, and a state without expenses and without a positive target can be
  reached later. From the defaults, add an expense, set both targets to 0 and delete the
  expense: the first three mutations are written, one call each and in their order; the
  deletion changes the state, yet the store receives no call for it, and the stored
  record is still the state with the expense, not the state in memory.
\<close>

theorem delete_not_written:
  "app (run (\<lambda>d. d) (savedWorld app0 [])
      [AddExpense 1 ''100'' ''Food'' ''2024-07-01'', SetWeeklyTarget ''0'', SetMonthlyTarget ''0'',
       DeleteExpense 1]) = app4
   \<and> app (run (\<lambda>d. d) (savedWorld app0 [])
      [AddExpense 1 ''100'' ''Food'' ''2024-07-01'', SetWeeklyTarget ''0'', SetMonthlyTarget ''0''])
     = app3
   \<and> calls (storage (env (run (\<lambda>d. d) (savedWorld app0 [])
      [AddExpense 1 ''100'' ''Food'' ''2024-07-01'', SetWeeklyTarget ''0'', SetMonthlyTarget ''0'']))) =
     [(STORAGE_KEY, appData app1), (STORAGE_KEY, appData app2), (STORAGE_KEY, appData app3)]
   \<and> calls (storage (env (run (\<lambda>d. d) (savedWorld app0 [])
      [AddExpense 1 ''100'' ''Food'' ''2024-07-01'', SetWeeklyTarget ''0'', SetMonthlyTarget ''0'',
       DeleteExpense 1]))) =
     [(STORAGE_KEY, appData app1), (STORAGE_KEY, appData app2), (STORAGE_KEY, appData app3)]
   \<and> items (storage (env (run (\<lambda>d. d) (savedWorld app0 [])
      [AddExpense 1 ''100'' ''Food'' ''2024-07-01'', SetWeeklyTarget ''0'', SetMonthlyTarget ''0'',
       DeleteExpense 1]))) STORAGE_KEY = Some (appData app3)
   \<and> expenses (appData app3) = [e1] \<and> expenses (appData app4) = []"
  by (simp add: run_def step1 step2 step3 step4)
     (simp add: savedWorld_def appData_def app3_def app4_def)


section \<open>The calendar: the start of the week\<close>

lemma msPerDay_pos: "0 < msPerDay"
  by (simp add: msPerDay_def)

lemma MonthFromTime_range: "0 \<le> MonthFromTime t \<and> MonthFromTime t \<le> 11"
  by (simp add: MonthFromTime_def Let_def)

lemma MakeDay_same_month:
  "MakeDay (YearFromTime t) (MonthFromTime t) (DateFromTime t + k) = Day t + k"
proof -
  have "MonthFromTime t div 12 = 0" and "MonthFromTime t mod 12 = MonthFromTime t"
    using MonthFromTime_range [of t] by simp_all
  then show ?thesis
    by (simp add: MakeDay_def DateFromTime_def DayWithinYear_def)
qed

lemma TimeWithinDay_range: "0 \<le> TimeWithinDay t \<and> TimeWithinDay t < msPerDay"
  using msPerDay_pos by (simp add: TimeWithinDay_def)

lemma Day_MakeDate: "0 \<le> tw \<Longrightarrow> tw < msPerDay \<Longrightarrow> Day (MakeDate d tw) = d"
  using msPerDay_pos by (simp add: Day_def MakeDate_def)

lemma WeekDay_range: "0 \<le> WeekDay t \<and> WeekDay t \<le> 6"
  using pos_mod_bound [of 7 "Day t + 4"] by (simp add: WeekDay_def)

lemma back_to_monday:
  fixes w :: int
  assumes "0 \<le> w" and "w \<le> 6"
  shows "(if w = 0 then - 6 else 1) - w = - ((w + 6) mod 7)"
proof (cases "w = 0")
  case True
  then show ?thesis by simp
next
  case False
  with assms have "0 \<le> w - 1" and "w - 1 < 7" by simp_all
  then have "(w - 1) mod 7 = w - 1" by simp
  moreover have "(w - 1 + 7) mod 7 = (w - 1) mod 7" by (rule mod_add_self2)
  moreover have "w - 1 + 7 = w + 6" by simp
  ultimately have "(w + 6) mod 7 = w - 1" by simp
  with False show ?thesis by simp
qed

lemma monday_weekday: "((d::int) - ((d + 4) mod 7 + 6) mod 7 + 4) mod 7 = 1"
  by presburger

lemma getStartOfWeek_eq:
  "getStartOfWeek t = MakeDate (Day t - (WeekDay t + 6) mod 7) (TimeWithinDay t)"
proof -
  have d: "(if WeekDay t = 0 then - 6 else 1) - WeekDay t = - ((WeekDay t + 6) mod 7)"
    using WeekDay_range [of t] by (simp only: back_to_monday)
  have "getStartOfWeek t =
          MakeDate (MakeDay (YearFromTime t) (MonthFromTime t)
                      (DateFromTime t + ((if WeekDay t = 0 then - 6 else 1) - WeekDay t)))
                   (TimeWithinDay t)"
    by (simp add: getStartOfWeek_def setDate_def getDay_def getDate_def Let_def algebra_simps)
  then show ?thesis
    unfolding MakeDay_same_month d by simp
qed

lemma Day_getStartOfWeek: "Day (getStartOfWeek t) = Day t - (WeekDay t + 6) mod 7"
  unfolding getStartOfWeek_eq using TimeWithinDay_range [of t] by (simp add: Day_MakeDate)

lemma weekStart_eq: "weekStart t = (Day t - (WeekDay t + 6) mod 7) * msPerDay"
  by (simp add: weekStart_def setHours_def Day_getStartOfWeek MakeTime_def MakeDate_def)

lemma Day_weekStart: "Day (weekStart t) = Day t - (WeekDay t + 6) mod 7"
  using msPerDay_pos by (simp add: weekStart_eq Day_def)

lemma WeekDay_weekStart: "WeekDay (weekStart t) = 1"
  unfolding WeekDay_def Day_weekStart by (rule monday_weekday)

lemma TimeWithinDay_weekStart: "TimeWithinDay (weekStart t) = 0"
  by (simp add: weekStart_eq TimeWithinDay_def)

lemma Day_bounds: "Day t * msPerDay \<le> t \<and> t < (Day t + 1) * msPerDay"
proof -
  have "t = Day t * msPerDay + t mod msPerDay"
    by (simp add: Day_def)
  moreover have "0 \<le> t mod msPerDay" and "t mod msPerDay < msPerDay"
    using msPerDay_pos by simp_all
  ultimately show ?thesis
    by (simp add: distrib_right)
qed

lemma weekStart_bounds: "weekStart t \<le> t \<and> t < weekStart t + 7 * msPerDay"
proof -
  define k where "k = (WeekDay t + 6) mod 7"
  have k: "0 \<le> k" "k \<le> 6"
    unfolding k_def by simp_all
  have "weekStart t = Day t * msPerDay - k * msPerDay"
    by (simp add: weekStart_eq k_def left_diff_distrib)
  moreover have "0 \<le> k * msPerDay" and "k * msPerDay \<le> 6 * msPerDay"
    using k msPerDay_pos by simp_all
  moreover have "(Day t + 1) * msPerDay = Day t * msPerDay + msPerDay"
    by (simp add: distrib_right)
  ultimately show ?thesis
    using Day_bounds [of t] by linarith
qed


section \<open>Additions that do not round\<close>






lemma units_whole [simp]: "units (Num (of_nat n)) = n"
  by (simp add: units_def)












section \<open>The aggregates as sums\<close>

lemma foldl_weekly:
  "weeklySpent (foldl (aggregateStep sw sm) acc es) =
     foldl (+) (weeklySpent acc) (map amount (filter (onOrAfter sw) es))"
  by (induction es arbitrary: acc)
     (simp_all add: aggregateStep_def onOrAfter_def Let_def)

lemma foldl_monthly:
  "monthlySpent (foldl (aggregateStep sw sm) acc es) =
     foldl (+) (monthlySpent acc) (map amount (filter (onOrAfter sm) es))"
  by (induction es arbitrary: acc)
     (simp_all add: aggregateStep_def onOrAfter_def Let_def)

lemma categoryTotals_step:
  "categoryTotals (aggregateStep sw sm acc e) =
     (if onOrAfter sm e then addToKey (categoryTotals acc) (category e) (amount e)
      else categoryTotals acc)"
  by (simp add: aggregateStep_def onOrAfter_def Let_def)

lemma foldl_totals:
  "categoryTotals (foldl (aggregateStep sw sm) acc es) c =
     (case categoryTotals acc c of
        Some (Total v) \<Rightarrow>
          Some (Total (foldl (+) v
                  (map amount (filter (\<lambda>e. onOrAfter sm e \<and> category e = c) es))))
      | Some Text \<Rightarrow> Some Text
      | None \<Rightarrow>
          if c \<in> set Object_prototype \<and> c \<noteq> ''__proto__''
             \<and> (\<exists>e \<in> set es. onOrAfter sm e \<and> category e = c)
          then Some Text else None)"
proof (induction es arbitrary: acc)
  case Nil
  then show ?case by (simp split: option.split total.split)
next
  case (Cons e es)
  show ?case
    unfolding foldl_Cons Cons.IH categoryTotals_step
    by (auto simp add: addToKey_def split: option.split total.split)
qed

lemma initialTotals_eq: "initialTotals c = (if c \<in> set CATEGORIES then Some (Total 0) else None)"
  by (simp add: initialTotals_def CATEGORIES_def)

lemma weeklySpent_eq:
  "weeklySpent (aggregates now exps) =
     sumOf (map amount (filter (onOrAfter (weekStart now)) exps))"
  by (simp add: aggregates_def foldl_weekly sumOf_def)

lemma monthlySpent_eq:
  "monthlySpent (aggregates now exps) =
     sumOf (map amount (filter (onOrAfter (monthStartTime now)) exps))"
  by (simp add: aggregates_def foldl_monthly sumOf_def)

lemma categoryTotals_eq:
  "categoryTotals (aggregates now exps) c =
     (if c \<in> set CATEGORIES
      then Some (Total (sumOf (map amount
                   (filter (\<lambda>e. onOrAfter (monthStartTime now) e \<and> category e = c) exps))))
      else if c \<in> set Object_prototype \<and> c \<noteq> ''__proto__''
              \<and> (\<exists>e \<in> set exps. onOrAfter (monthStartTime now) e \<and> category e = c)
      then Some Text
      else None)"
  by (simp add: aggregates_def foldl_totals initialTotals_eq sumOf_def)






section \<open>The example of the specification: Wednesday 2024-07-10\<close>

text \<open>
  The time \<open>1720625400000\<close> is 2024-07-10 at 15:30 local, a Wednesday; \<open>1720366200000\<close> is
  the Sunday before, 2024-07-07 at 15:30. The calendar is evaluated on them step by step.
\<close>

lemma parse_wed: "Date_parse ''2024-07-10T15:30:00'' = Some 1720625400000"
  by (simp add: date_eval)

lemma parse_sun: "Date_parse ''2024-07-07T15:30:00'' = Some 1720366200000"
  by (simp add: date_eval)

lemma parse_mon: "Date_parse ''2024-07-08T00:00:00'' = Some 1720396800000"
  by (simp add: date_eval)

lemma parse_prev_mon: "Date_parse ''2024-07-01T00:00:00'' = Some 1719792000000"
  by (simp add: date_eval)

lemma Day_wed: "Day 1720625400000 = 19914"
  by (simp add: Day_def msPerDay_def)

lemma Day_sun: "Day 1720366200000 = 19911"
  by (simp add: Day_def msPerDay_def)

lemma WeekDay_wed: "WeekDay 1720625400000 = 3"
  by (simp add: WeekDay_def Day_wed)

lemma WeekDay_sun: "WeekDay 1720366200000 = 0"
  by (simp add: WeekDay_def Day_sun)

lemma Year_wed: "YearFromTime 1720625400000 = 2024"
  by (simp add: YearFromTime_def Day_wed DayFromYear_def)

lemma Year_sun: "YearFromTime 1720366200000 = 2024"
  by (simp add: YearFromTime_def Day_sun DayFromYear_def)

lemma DayWithinYear_wed: "DayWithinYear 1720625400000 = 191"
  by (simp add: DayWithinYear_def Day_wed Year_wed DayFromYear_def)

lemma DayWithinYear_sun: "DayWithinYear 1720366200000 = 188"
  by (simp add: DayWithinYear_def Day_sun Year_sun DayFromYear_def)

lemma leapDay_2024: "leapDay 2024 = 1"
  by (simp add: leapDay_def DaysInYear_def)

lemma Month_wed: "MonthFromTime 1720625400000 = 6"
  by (simp add: MonthFromTime_def DayWithinYear_wed Year_wed leapDay_2024)

lemma Month_sun: "MonthFromTime 1720366200000 = 6"
  by (simp add: MonthFromTime_def DayWithinYear_sun Year_sun leapDay_2024)

lemma Date_wed: "DateFromTime 1720625400000 = 10"
  by (simp add: DateFromTime_def DayWithinYear_wed Month_wed Year_wed leapDay_2024 monthStart_def)

lemma Date_sun: "DateFromTime 1720366200000 = 7"
  by (simp add: DateFromTime_def DayWithinYear_sun Month_sun Year_sun leapDay_2024 monthStart_def)

lemma getStartOfWeek_wed: "getStartOfWeek 1720625400000 = 1720452600000"
  by (simp add: getStartOfWeek_def getDay_def getDate_def setDate_def WeekDay_wed Date_wed
      Year_wed Month_wed MakeDay_def MakeDate_def TimeWithinDay_def DayFromYear_def
      leapDay_2024 monthStart_def msPerDay_def)

lemma getStartOfWeek_sun: "getStartOfWeek 1720366200000 = 1719847800000"
  by (simp add: getStartOfWeek_def getDay_def getDate_def setDate_def WeekDay_sun Date_sun
      Year_sun Month_sun MakeDay_def MakeDate_def TimeWithinDay_def DayFromYear_def
      leapDay_2024 monthStart_def msPerDay_def)

lemma weekStart_wed: "weekStart 1720625400000 = 1720396800000"
  by (simp add: weekStart_def getStartOfWeek_wed setHours_def Day_def MakeDate_def MakeTime_def
      msPerDay_def)

lemma weekStart_sun: "weekStart 1720366200000 = 1719792000000"
  by (simp add: weekStart_def getStartOfWeek_sun setHours_def Day_def MakeDate_def MakeTime_def
      msPerDay_def)

lemma monthStart_wed: "monthStartTime 1720625400000 = 1719792000000"
  by (simp add: monthStartTime_def getFullYear_def getMonth_def Year_wed Month_wed newDate_def
      setHours_def MakeDay_def MakeDate_def MakeTime_def Day_def DayFromYear_def leapDay_2024
      monthStart_def msPerDay_def)

lemma midnight_e1: "Date_parse (date e1 @ ''T00:00:00'') = Some 1719792000000"
  by (simp add: e1_def date_eval)

lemma midnight_e2: "Date_parse (date e2 @ ''T00:00:00'') = Some 1720569600000"
  by (simp add: e2_def date_eval)

lemma midnight_e3: "Date_parse (date e3 @ ''T00:00:00'') = Some 1720310400000"
  by (simp add: e3_def date_eval)

lemma midnight_e4: "Date_parse (date e4 @ ''T00:00:00'') = Some 1720483200000"
  by (simp add: e4_def date_eval)

lemma midnight_e5: "Date_parse (date e5 @ ''T00:00:00'') = Some 1720483200000"
  by (simp add: e5_def date_eval)

lemma onOrAfter_examples:
  "onOrAfter 1720396800000 e2" "\<not> onOrAfter 1720396800000 e3" "onOrAfter 1720396800000 e4"
  "onOrAfter 1719792000000 e2" "onOrAfter 1719792000000 e3" "onOrAfter 1719792000000 e4"
  "onOrAfter 1719792000000 e5"
  by (simp_all add: onOrAfter_def midnight_e2 midnight_e3 midnight_e4 midnight_e5)

lemma amounts_examples:
  "amount e2 = Num (25 / 2)" "amount e3 = Num 40" "amount e4 = Num 7" "amount e5 = Num 7"
  "category e2 = ''Travel''" "category e3 = ''Food''" "category e4 = ''Gift''"
  "category e5 = ''toString''"
  by (simp_all add: e2_def e3_def e4_def e5_def)

lemma sums_examples:
  "double (25 / 2) = Num (25 / 2)" "double 40 = Num 40" "double 7 = Num 7"
  "double (105 / 2) = Num (105 / 2)" "double (39 / 2) = Num (39 / 2)"
  "double (119 / 2) = Num (119 / 2)"
  by (simp_all add: double_eval)

lemma aggregates_example:
  "weeklySpent (aggregates 1720625400000 [e2, e3]) = Num (25 / 2)"
  "monthlySpent (aggregates 1720625400000 [e2, e3]) = Num (105 / 2)"
  "categoryTotals (aggregates 1720625400000 [e2, e3]) ''Food'' = Some (Total (Num 40))"
  "categoryTotals (aggregates 1720625400000 [e2, e3]) ''Travel'' = Some (Total (Num (25 / 2)))"
  "categoryTotals (aggregates 1720625400000 [e2, e3]) ''Dress'' = Some (Total (Num 0))"
  "categoryTotals (aggregates 1720625400000 [e2, e3]) ''Entertainment'' = Some (Total (Num 0))"
  "categoryTotals (aggregates 1720625400000 [e2, e3]) ''Other'' = Some (Total (Num 0))"
  by (simp_all add: weeklySpent_eq monthlySpent_eq categoryTotals_eq CATEGORIES_def sumOf_def
      weekStart_wed monthStart_wed onOrAfter_examples amounts_examples zero_number_def
      sums_examples)

lemma aggregates_example_gift:
  "weeklySpent (aggregates 1720625400000 [e2, e4, e3]) = Num (39 / 2)"
  "monthlySpent (aggregates 1720625400000 [e2, e4, e3]) = Num (119 / 2)"
  by (simp_all add: weeklySpent_eq monthlySpent_eq sumOf_def
      weekStart_wed monthStart_wed onOrAfter_examples amounts_examples zero_number_def
      sums_examples)





section \<open>The week window, the category totals\<close>

text \<open>
  Claim C5. \<open>WeekDay\<close> counts from Sunday = 0, so Monday is 1. For every \<open>now\<close> the week
  window starts (\<open>weekStart now\<close>) on a Monday, at 00:00:00, at or before \<open>now\<close> and less
  than seven days before it: it is the most recent Monday at or before \<open>now\<close>; it lies
  \<open>(WeekDay now + 6) mod 7\<close> days before the day of \<open>now\<close>, which is six days when \<open>now\<close> is
  a Sunday. \<open>weeklySpent\<close> is the sum, in the order of the list, of the amounts of exactly
  the expenses whose date, read at local midnight, is on or after that start.
\<close>

theorem week_window:
  "WeekDay (weekStart now) = 1
   \<and> TimeWithinDay (weekStart now) = 0
   \<and> weekStart now \<le> now \<and> now < weekStart now + 7 * msPerDay
   \<and> Day (weekStart now) = Day now - (WeekDay now + 6) mod 7
   \<and> (WeekDay now = 0 \<longrightarrow> Day (weekStart now) = Day now - 6)
   \<and> weeklySpent (aggregates now exps) =
       sumOf (map amount (filter (onOrAfter (weekStart now)) exps))"
  using weekStart_bounds [of now]
  by (simp add: WeekDay_weekStart TimeWithinDay_weekStart Day_weekStart weeklySpent_eq)

text \<open>
  The scenario of the specification: for Wednesday 2024-07-10 the window starts on Monday
  2024-07-08; the expense \<open>e3\<close> of 2024-07-07 is outside the week and inside the month, so
  the weekly sum is the amount of \<open>e2\<close> and the monthly sum has both. For Sunday 2024-07-07
  the window starts six days earlier, on Monday 2024-07-01.
\<close>

theorem week_window_witness:
  "Date_parse ''2024-07-10T15:30:00'' = Some 1720625400000
   \<and> WeekDay 1720625400000 = 3
   \<and> Some (weekStart 1720625400000) = Date_parse ''2024-07-08T00:00:00''
   \<and> WeekDay (weekStart 1720625400000) = 1
   \<and> \<not> onOrAfter (weekStart 1720625400000) e3
   \<and> onOrAfter (monthStartTime 1720625400000) e3
   \<and> weeklySpent (aggregates 1720625400000 [e2, e3]) = Num (25 / 2)
   \<and> monthlySpent (aggregates 1720625400000 [e2, e3]) = Num (105 / 2)
   \<and> Date_parse ''2024-07-07T15:30:00'' = Some 1720366200000
   \<and> WeekDay 1720366200000 = 0
   \<and> Day (weekStart 1720366200000) = Day 1720366200000 - 6
   \<and> Some (weekStart 1720366200000) = Date_parse ''2024-07-01T00:00:00''"
  using week_window [of 1720625400000 "[e2, e3]"] week_window [of 1720366200000 "[]"]
  by (simp add: parse_wed parse_sun parse_mon parse_prev_mon WeekDay_wed WeekDay_sun
      weekStart_wed weekStart_sun monthStart_wed onOrAfter_examples aggregates_example)




text \<open>
  Claim C10. For every list and every \<open>now\<close>, each of the five fixed categories is a key
  of \<open>categoryTotals\<close> with a number as its value, and the value is 0 when no expense in
  the month window has that category; for the empty list all five are 0.
\<close>

theorem category_totals_keys:
  "(\<forall>c \<in> set CATEGORIES.
      (\<exists>v. categoryTotals (aggregates now exps) c = Some (Total v))
      \<and> ((\<forall>x \<in> set exps. \<not> (onOrAfter (monthStartTime now) x \<and> category x = c)) \<longrightarrow>
           categoryTotals (aggregates now exps) c = Some (Total 0)))
   \<and> (\<forall>c \<in> set CATEGORIES. categoryTotals (aggregates now []) c = Some (Total 0))"
proof -
  have "(\<forall>x \<in> set exps. \<not> (P x \<and> category x = c)) \<Longrightarrow>
          filter (\<lambda>x. P x \<and> category x = c) exps = []" for P c
    by (induction exps) auto
  then show ?thesis
    by (auto simp add: categoryTotals_eq sumOf_def)
qed

theorem category_totals_keys_witness:
  "categoryTotals (aggregates 1720625400000 [e2, e3]) ''Food'' = Some (Total (Num 40))
   \<and> categoryTotals (aggregates 1720625400000 [e2, e3]) ''Travel'' = Some (Total (Num (25 / 2)))
   \<and> categoryTotals (aggregates 1720625400000 [e2, e3]) ''Dress'' = Some (Total 0)
   \<and> categoryTotals (aggregates 1720625400000 [e2, e3]) ''Entertainment'' = Some (Total 0)
   \<and> categoryTotals (aggregates 1720625400000 [e2, e3]) ''Other'' = Some (Total 0)
   \<and> categoryTotals (aggregates 1720625400000 []) ''Food'' = Some (Total 0)"
  using category_totals_keys [of 1720625400000 "[e2, e3]"]
  by (simp add: CATEGORIES_def aggregates_example zero_number_def)

end
